theory Spec2Isabelle
  imports Main "HOL-Library.Word"
begin

section \<open>Simple Inbox Status: the background script\<close>

text \<open>
  A shallow embedding of \<^verbatim>\<open>src/chrome/src/background.js\<close> (class
  \<^verbatim>\<open>SimpleInboxStatus\<close>) and, where a property also concerns it, of the older
  copy of the same script, \<^verbatim>\<open>src/unnamed/part_000\<close>; the definitions taken from the
  older copy carry the suffix \<open>_part_000\<close>.

  JavaScript strings are \<^typ>\<open>string\<close> (the UTF-8 bytes of the text). A value that is a
  string, \<^verbatim>\<open>null\<close> or \<^verbatim>\<open>undefined\<close> is a \<open>jsval\<close>; strict equality
  \<^verbatim>\<open>===\<close> on such values is equality of \<open>jsval\<close>.
\<close>

subsection \<open>JavaScript values and strings\<close>

datatype jsval = Undefined | Null | Str string

text \<open>Template literals and string concatenation convert with \<^verbatim>\<open>ToString\<close>.\<close>

fun to_string :: "jsval \<Rightarrow> string" where
  "to_string Undefined = ''undefined''"
| "to_string Null = ''null''"
| "to_string (Str s) = s"

text \<open>\<^verbatim>\<open>ToBoolean\<close>: only a non-empty string is truthy.\<close>

fun truthy :: "jsval \<Rightarrow> bool" where
  "truthy (Str s) = (s \<noteq> [])"
| "truthy _ = False"

text \<open>
  \<^verbatim>\<open>s.split(c)\<close> for a one-character separator: the pieces between the separators, in
  order; a string without separator is its own single piece, the empty string included.
\<close>

fun js_split :: "char \<Rightarrow> string \<Rightarrow> string list" where
  "js_split c [] = [[]]"
| "js_split c (x # xs) =
     (if x = c then [] # js_split c xs
      else (case js_split c xs of
              [] \<Rightarrow> [[x]]
            | p # ps \<Rightarrow> (x # p) # ps))"

text \<open>\<^verbatim>\<open>s.indexOf(c)\<close>, with \<open>-1\<close> when \<open>c\<close> does not occur.\<close>

fun indexOf :: "string \<Rightarrow> char \<Rightarrow> int" where
  "indexOf [] c = -1"
| "indexOf (x # xs) c =
     (if x = c then 0 else (let i = indexOf xs c in if i < 0 then -1 else i + 1))"

text \<open>\<^verbatim>\<open>s.substring(i)\<close> for \<open>i \<ge> 0\<close>.\<close>

definition substring :: "string \<Rightarrow> int \<Rightarrow> string" where
  "substring s i = drop (nat i) s"

text \<open>\<^verbatim>\<open>a[i]\<close> on an array of strings: \<^verbatim>\<open>undefined\<close> out of range.\<close>

definition at_index :: "string list \<Rightarrow> nat \<Rightarrow> jsval" where
  "at_index xs i = (if i < length xs then Str (xs ! i) else Undefined)"

subsection \<open>Parsing the redirect response\<close>

text \<open>
  \<^verbatim>\<open>
  parse_auth_response( response ) {
      const params = response.substring( response.indexOf( '#' ) + 1 ).split('&');
      const result = {};
      params.forEach( param => {
          param = param.split('=');
          result[ param[0] ] = param[1];
      });
      return result;
  }
  \<close>
  The result object is the function from property names to the values of its own
  properties, \<^verbatim>\<open>undefined\<close> for a name that has none. The script reads \<^verbatim>\<open>id_token\<close>,
  \<^verbatim>\<open>access_token\<close> and \<^verbatim>\<open>error_message\<close> from it, names that \<^verbatim>\<open>Object.prototype\<close>
  does not have. An assignment \<^verbatim>\<open>result[ k ] = v\<close> makes or overwrites the own property
  \<open>k\<close>, for every name but one: \<^verbatim>\<open>result[ '__proto__' ] = v\<close> calls the setter of
  \<^verbatim>\<open>Object.prototype\<close>, which does nothing with a string or with \<^verbatim>\<open>undefined\<close>, so
  that no property is stored. The function is the same in both copies of the script.
\<close>

type_synonym js_object = "string \<Rightarrow> jsval"

definition empty_object :: js_object where
  "empty_object = (\<lambda>k. Undefined)"

definition set_param :: "js_object \<Rightarrow> string \<Rightarrow> js_object" where
  "set_param result param =
     (let parts = js_split CHR ''='' param;
          key = to_string (at_index parts 0)
      in if key = ''__proto__'' then result else result (key := at_index parts 1))"

definition parse_auth_response :: "string \<Rightarrow> js_object" where
  "parse_auth_response response =
     (let params = js_split CHR ''&'' (substring response (indexOf response CHR ''#'' + 1))
      in foldl set_param empty_object params)"

text \<open>The property name a raw parameter is stored under: \<^verbatim>\<open>param.split('=')[0]\<close>.\<close>

definition param_key :: "string \<Rightarrow> string" where
  "param_key param = to_string (at_index (js_split CHR ''='' param) 0)"

subsection \<open>Counting unread messages\<close>

record mail_folder =
  DisplayName :: string
  UnreadItemCount :: int

text \<open>
  \<^verbatim>\<open>
  calculate_total_unread_messages( mail_folders ) {
      let count = 0;
      for ( const folder of mail_folders ) {
          if ( 'Archive' === folder.DisplayName ) { continue; }
          count += folder.UnreadItemCount;
      }
      return count;
  }
  \<close>
  The loop, with the running \<open>count\<close> as accumulator.
\<close>

fun count_loop :: "int \<Rightarrow> mail_folder list \<Rightarrow> int" where
  "count_loop count [] = count"
| "count_loop count (folder # rest) =
     (if ''Archive'' = DisplayName folder then count_loop count rest
      else count_loop (count + UnreadItemCount folder) rest)"

definition calculate_total_unread_messages :: "mail_folder list \<Rightarrow> int" where
  "calculate_total_unread_messages mail_folders = count_loop 0 mail_folders"

text \<open>
  The older copy has no test on the folder's name:
  \<^verbatim>\<open>
  for ( const folder of mail_folders ) { count += folder['UnreadItemCount']; }
  \<close>
\<close>

fun count_loop_part_000 :: "int \<Rightarrow> mail_folder list \<Rightarrow> int" where
  "count_loop_part_000 count [] = count"
| "count_loop_part_000 count (folder # rest) =
     count_loop_part_000 (count + UnreadItemCount folder) rest"

definition calculate_total_unread_messages_part_000 :: "mail_folder list \<Rightarrow> int" where
  "calculate_total_unread_messages_part_000 mail_folders = count_loop_part_000 0 mail_folders"

subsection \<open>The session and the host's configuration\<close>

text \<open>
  The fields the constructor sets. \<^verbatim>\<open>this.user\<close> starts as the empty object, so each of
  its properties starts \<^verbatim>\<open>undefined\<close>.
\<close>

record user_profile =
  display_name :: jsval
  signin_name :: jsval
  domain_type :: jsval
  email :: jsval

record session =
  is_authorized :: bool
  access_token :: jsval
  id_token :: jsval
  current_nonce :: jsval
  user :: user_profile

definition new_session :: session where
  "new_session =
     \<lparr>is_authorized = False, access_token = Null, id_token = Null, current_nonce = Null,
      user = \<lparr>display_name = Undefined, signin_name = Undefined, domain_type = Undefined,
              email = Undefined\<rparr>\<rparr>"

text \<open>
  What the script reads from the host: the \<^verbatim>\<open>oauth2\<close> entry of the extension's manifest
  and the redirect URL \<^verbatim>\<open>chrome.identity.getRedirectURL( '/callback' )\<close>.
\<close>

record runtime =
  client_id :: string
  auth_url :: string
  api_endpoint :: string
  scopes :: "string list"
  redirect_url :: string

definition mail_folders_url :: "runtime \<Rightarrow> string" where
  "mail_folders_url m = api_endpoint m @ ''/me/MailFolders?''"

definition me_url :: "runtime \<Rightarrow> string" where
  "me_url m = api_endpoint m @ ''/me''"

subsection \<open>Validating the id token\<close>

text \<open>
  The payload \<^verbatim>\<open>jwt_decode( token )\<close> returns. \<^verbatim>\<open>jwt_decode\<close> is a third-party
  library, so the decoder is a parameter of the model: it gives \<open>None\<close> where the library
  throws (or where the payload is not an object, so that reading a claim throws). A
  claim the script compares as a string is a \<open>jsval\<close>, \<open>Undefined\<close> when the payload
  lacks it. The two dates are integer numbers of seconds, \<open>None\<close> when the payload lacks
  the claim: \<^verbatim>\<open>undefined - 300\<close> and \<^verbatim>\<open>undefined + 300\<close> are \<^verbatim>\<open>NaN\<close>.
\<close>

record id_claims =
  nonce :: jsval
  aud :: jsval
  iss :: jsval
  tid :: jsval
  name :: jsval
  preferred_username :: jsval
  nbf :: "int option"
  exp :: "int option"

datatype error = DecodeError

text \<open>
  A JavaScript number is an integer or \<^verbatim>\<open>NaN\<close> (\<open>None\<close>). \<^verbatim>\<open>new Date( v )\<close> keeps the time
  value \<open>v\<close> (milliseconds) when \<open>|v| \<le> 8.64e15\<close> and is an invalid date, of time value
  \<^verbatim>\<open>NaN\<close>, otherwise (\<^verbatim>\<open>TimeClip\<close>). Comparing dates compares their time values, and
  every comparison with \<^verbatim>\<open>NaN\<close> is false.
\<close>

type_synonym js_number = "int option"

definition js_Date :: "js_number \<Rightarrow> js_number" where
  "js_Date v =
     (case v of
        None \<Rightarrow> None
      | Some ms \<Rightarrow> if \<bar>ms\<bar> > 8640000000000000 then None else Some ms)"

definition js_less :: "js_number \<Rightarrow> js_number \<Rightarrow> bool" where
  "js_less a b = (case a of None \<Rightarrow> False | Some x \<Rightarrow> (case b of None \<Rightarrow> False | Some y \<Rightarrow> x < y))"

definition consumer_tenant :: string where
  "consumer_tenant = ''9188040d-6c67-4c5b-b112-36a304b66dad''"

definition issuer_of :: "jsval \<Rightarrow> string" where
  "issuer_of t = ''https://login.microsoftonline.com/'' @ to_string t @ ''/v2.0''"

text \<open>
  \<^verbatim>\<open>validate_id_token( token )\<close>, with the session passed in and returned, the decoder
  and the clock's reading \<open>now\<close> (milliseconds) as parameters. The checks come in the
  order of the source; the three assignments to \<^verbatim>\<open>this.user\<close> are its last statements.
\<close>

definition accept_claims :: "session \<Rightarrow> id_claims \<Rightarrow> session" where
  "accept_claims s decoded =
     s\<lparr>user := (user s)
          \<lparr>display_name := name decoded,
           signin_name := preferred_username decoded,
           domain_type :=
             Str (if tid decoded = Str consumer_tenant then ''consumers'' else ''organizations'')\<rparr>\<rparr>"

definition validate_id_token ::
  "runtime \<Rightarrow> (string \<Rightarrow> id_claims option) \<Rightarrow> int \<Rightarrow> session \<Rightarrow> jsval
     \<Rightarrow> error + (bool \<times> session)" where
  "validate_id_token m jwt_decode now s token =
     (case token of
        Str t \<Rightarrow>
          if t = [] then Inr (False, s)
          else if length (js_split CHR ''.'' t) \<noteq> 3 then Inr (False, s)
          else (case jwt_decode t of
                  None \<Rightarrow> Inl DecodeError
                | Some decoded \<Rightarrow>
                    if nonce decoded \<noteq> current_nonce s then Inr (False, s)
                    else if aud decoded \<noteq> Str (client_id m) then Inr (False, s)
                    else if iss decoded \<noteq> Str (issuer_of (tid decoded)) then Inr (False, s)
                    else
                      (let notBefore = js_Date (map_option (\<lambda>n. (n - 300) * 1000) (nbf decoded));
                           expires = js_Date (map_option (\<lambda>n. (n + 300) * 1000) (exp decoded))
                       in if js_less (Some now) notBefore then Inr (False, s)
                          else if js_less expires (Some now) then Inr (False, s)
                          else Inr (True, accept_claims s decoded)))
      | _ \<Rightarrow> Inr (False, s))"

subsection \<open>Building the request URLs\<close>

text \<open>
  \<^verbatim>\<open>encodeURIComponent\<close>: the letters, the digits and the marks \<^verbatim>\<open>- _ . ! ~ * ' ( )\<close>
  stand for themselves; every other byte of the UTF-8 text becomes \<^verbatim>\<open>%XX\<close>, in capital
  hexadecimal digits.
\<close>

definition uri_unreserved :: "char \<Rightarrow> bool" where
  "uri_unreserved c =
     (c \<in> set (''ABCDEFGHIJKLMNOPQRSTUVWXYZabcdefghijklmnopqrstuvwxyz0123456789-_.!~*()''
               @ [CHR 0x27]))"

definition hex_upper :: "nat \<Rightarrow> char" where
  "hex_upper n = ''0123456789ABCDEF'' ! (n mod 16)"

definition encode_char :: "char \<Rightarrow> string" where
  "encode_char c =
     (if uri_unreserved c then [c]
      else [CHR ''%'', hex_upper (of_char c div 16), hex_upper (of_char c mod 16)])"

definition encodeURIComponent :: "string \<Rightarrow> string" where
  "encodeURIComponent s = concat (map encode_char s)"

text \<open>\<^verbatim>\<open>a.join( sep )\<close>.\<close>

fun js_join :: "string \<Rightarrow> string list \<Rightarrow> string" where
  "js_join sep [] = []"
| "js_join sep [x] = x"
| "js_join sep (x # y # ys) = x @ sep @ js_join sep (y # ys)"

text \<open>
  An object literal whose properties are enumerated (\<^verbatim>\<open>Object.keys\<close>) is the list of its
  properties in insertion order. Assigning to a property that exists keeps its place;
  a new property goes last. \<^verbatim>\<open>Object.assign( query, {...} )\<close> assigns the properties of
  its second argument in their order.
\<close>

type_synonym query = "(string \<times> jsval) list"

fun set_property :: "query \<Rightarrow> string \<times> jsval \<Rightarrow> query" where
  "set_property [] (k, v) = [(k, v)]"
| "set_property ((k', v') # q) (k, v) =
     (if k' = k then (k, v) # q else (k', v') # set_property q (k, v))"

definition object_assign :: "query \<Rightarrow> query \<Rightarrow> query" where
  "object_assign q source = foldl set_property q source"

definition get_property :: "query \<Rightarrow> string \<Rightarrow> jsval" where
  "get_property q k = (case map_of q k of None \<Rightarrow> Undefined | Some v \<Rightarrow> v)"

text \<open>
  \<^verbatim>\<open>
  generate_request_url( url, query_data ) {
      const keys = Object.keys( query_data );
      for ( const key of keys ) {
          const sep = key === keys[ keys.length - 1 ] ? '' : '&';
          url += `${key}=${query_data[ key ]}${sep}`;
      }
      return url;
  }
  \<close>
\<close>

definition generate_request_url :: "string \<Rightarrow> query \<Rightarrow> string" where
  "generate_request_url url query_data =
     (let keys = map fst query_data
      in foldl (\<lambda>url key.
                  url @ key @ ''='' @ to_string (get_property query_data key)
                      @ (if key = last keys then [] else ''&''))
           url keys)"

subsection \<open>Nonces\<close>

text \<open>
  \<^verbatim>\<open>create_nonce\<close> draws eight 16-bit values from \<^verbatim>\<open>crypto.getRandomValues\<close>; they are
  the parameter \<open>parts\<close> (the value at each index). \<^verbatim>\<open>num.toString( 16 )\<close> writes small
  hexadecimal digits, and the loop of \<^verbatim>\<open>s4\<close> pads them to four.
\<close>

fun to_string_16 :: "nat \<Rightarrow> string" where
  "to_string_16 n =
     (if n < 16 then [''0123456789abcdef'' ! n]
      else to_string_16 (n div 16) @ [''0123456789abcdef'' ! (n mod 16)])"

declare to_string_16.simps [simp del]

function s4_pad :: "string \<Rightarrow> string" where
  "s4_pad ret = (if length ret < 4 then s4_pad (CHR ''0'' # ret) else ret)"
  by pat_completeness auto
termination
  by (relation "measure (\<lambda>ret. 4 - length ret)") auto

declare s4_pad.simps [simp del]

definition s4 :: "16 word \<Rightarrow> string" where
  "s4 num = s4_pad (to_string_16 (unat num))"

fun nonce_loop :: "nat \<Rightarrow> 16 word list \<Rightarrow> string \<Rightarrow> string" where
  "nonce_loop index [] result = result"
| "nonce_loop index (part # rest) result =
     nonce_loop (index + 1) rest
       ((if index > 1 \<and> index < 6 then result @ ''-'' else result) @ s4 part)"

definition create_nonce :: "(nat \<Rightarrow> 16 word) \<Rightarrow> string" where
  "create_nonce parts = nonce_loop 0 (map parts [0..<8]) []"

subsection \<open>Requests, responses and what the script does to the outside\<close>

datatype http_method = GET | POST

record request_info =
  req_url :: string
  req_method :: http_method
  req_headers :: "(string \<times> string) list"
  req_body :: "query option"

text \<open>
  A response as the script reads it: \<^verbatim>\<open>ok\<close>, \<^verbatim>\<open>status\<close>, and the member of the JSON
  body it goes on to use (\<open>None\<close> when \<^verbatim>\<open>response.json()\<close> throws or gives something the
  script cannot use).
\<close>

record 'a response =
  ok :: bool
  status :: int
  json :: "'a option"

text \<open>
  The calls that leave the script, in the order it makes them. \<open>Callback\<close> is the call
  \<^verbatim>\<open>callback()\<close> in \<^verbatim>\<open>finish_auth\<close>, which resolves the promise \<^verbatim>\<open>authorize\<close> returned.
  \<open>StorageSyncSet\<close> carries the five fields written to \<^verbatim>\<open>chrome.storage.sync\<close>.
\<close>

datatype event =
    Fetch request_info
  | LaunchWebAuthFlow string bool
  | ConsoleError string
  | ConsoleLog
  | StorageSyncSet session
  | SetBadgeText string
  | WindowOpen string
  | Callback

text \<open>
  How a call of an \<^verbatim>\<open>async\<close> method ends: it returns, it throws (its promise is
  rejected), or it waits for a promise that nothing resolves.
\<close>

datatype outcome = Returned | Threw | Pending

text \<open>
  \<^verbatim>\<open>
  async make_remote_request( url, body = null ) {
      const request_info = { method: 'GET', headers: new Headers({
              'Authorization': `Bearer ${this.access_token}`, 'Accept': 'application/json' }) };
      if ( this.user.email ) { request_info.headers.append( 'x-AnchorMailbox', this.user.email ); }
      if ( null !== body ) { request_info.method = 'POST'; request_info.body = body; }
      const response = await fetch( url, request_info );
      return response;
  }
  \<close>
  The model gives the request that is handed to \<^verbatim>\<open>fetch\<close>.
\<close>

definition make_remote_request :: "session \<Rightarrow> string \<Rightarrow> query option \<Rightarrow> request_info" where
  "make_remote_request s url body =
     (let headers = [(''Authorization'', ''Bearer '' @ to_string (access_token s)),
                     (''Accept'', ''application/json'')];
          headers = (if truthy (email (user s))
                     then headers @ [(''x-AnchorMailbox'', to_string (email (user s)))]
                     else headers)
      in (case body of
            None \<Rightarrow> \<lparr>req_url = url, req_method = GET, req_headers = headers, req_body = None\<rparr>
          | Some b \<Rightarrow> \<lparr>req_url = url, req_method = POST, req_headers = headers, req_body = Some b\<rparr>))"

subsection \<open>The badge\<close>

text \<open>\<^verbatim>\<open>count.toString()\<close> for a positive whole number.\<close>

fun to_string_10 :: "nat \<Rightarrow> string" where
  "to_string_10 n =
     (if n < 10 then [''0123456789'' ! n]
      else to_string_10 (n div 10) @ [''0123456789'' ! (n mod 10)])"

declare to_string_10.simps [simp del]

definition update_status_badge :: "int \<Rightarrow> event" where
  "update_status_badge count =
     (let text = (if count > 0 then to_string_10 (nat count) else []);
          text = (if count > 9 then ''9+'' else text)
      in SetBadgeText text)"

subsection \<open>Authorization\<close>

text \<open>
  \<^verbatim>\<open>authorize( interactive )\<close> up to and including its call of
  \<^verbatim>\<open>chrome.identity.launchWebAuthFlow\<close>: all of it runs at once, inside the caller. The
  flow's callback, \<^verbatim>\<open>finish_auth\<close>, runs later, when the host delivers the flow's result.
  \<open>rnd_nonce\<close> and \<open>rnd_state\<close> are the random values of the two calls of
  \<^verbatim>\<open>create_nonce\<close>.
  \<^verbatim>\<open>
  const query = {
      client_id: this.manifest.oauth2.client_id,
      redirect_uri: encodeURIComponent( redirect_url ),
      response_type: encodeURIComponent( 'id_token token' ),
      scope: encodeURIComponent( scope ),
      response_mode: 'fragment',
      nonce: this.create_nonce(),
      state: this.create_nonce(),
  };
  this.current_nonce = query['nonce'];
  if ( ! interactive ) {
      Object.assign( query, { response_type: 'token', prompt: 'none',
          domain_hint: this.user.domain_type, login_hint: this.user.signin_name });
  } else if ( this.user.domain_type && this.user.signin_name ) {
      Object.assign( query, {
          domain_hint: this.user.domain_type, login_hint: this.user.signin_name });
  }
  \<close>
\<close>

definition auth_query ::
  "runtime \<Rightarrow> (nat \<Rightarrow> 16 word) \<Rightarrow> (nat \<Rightarrow> 16 word) \<Rightarrow> session \<Rightarrow> bool \<Rightarrow> query" where
  "auth_query m rnd_nonce rnd_state s interactive =
     (let scope = js_join '' '' (scopes m);
          query = [(''client_id'', Str (client_id m)),
                   (''redirect_uri'', Str (encodeURIComponent (redirect_url m))),
                   (''response_type'', Str (encodeURIComponent ''id_token token'')),
                   (''scope'', Str (encodeURIComponent scope)),
                   (''response_mode'', Str ''fragment''),
                   (''nonce'', Str (create_nonce rnd_nonce)),
                   (''state'', Str (create_nonce rnd_state))]
      in if \<not> interactive then
           object_assign query
             [(''response_type'', Str ''token''),
              (''prompt'', Str ''none''),
              (''domain_hint'', domain_type (user s)),
              (''login_hint'', signin_name (user s))]
         else if truthy (domain_type (user s)) \<and> truthy (signin_name (user s)) then
           object_assign query
             [(''domain_hint'', domain_type (user s)),
              (''login_hint'', signin_name (user s))]
         else query)"

definition authorize ::
  "runtime \<Rightarrow> (nat \<Rightarrow> 16 word) \<Rightarrow> (nat \<Rightarrow> 16 word) \<Rightarrow> session \<Rightarrow> bool
     \<Rightarrow> session \<times> event" where
  "authorize m rnd_nonce rnd_state s interactive =
     (let query = auth_query m rnd_nonce rnd_state s interactive;
          request_url = generate_request_url (auth_url m) query
      in (s\<lparr>current_nonce := get_property query ''nonce''\<rparr>,
          LaunchWebAuthFlow request_url interactive))"

text \<open>
  What \<^verbatim>\<open>finish_auth\<close> meets when it runs: \<^verbatim>\<open>chrome.runtime.lastError\<close> (its message,
  when set), the flow's result, the decoder and the clock for the validation, the
  answer to the request for \<^verbatim>\<open>/me\<close> (\<open>None\<close> when \<^verbatim>\<open>fetch\<close> fails), and the random values
  for an authorization it may start.
\<close>

record auth_env =
  last_error :: "string option"
  flow_result :: string
  decoder :: "string \<Rightarrow> id_claims option"
  clock :: int
  me_response :: "jsval response option"
  next_rnd_nonce :: "nat \<Rightarrow> 16 word"
  next_rnd_state :: "nat \<Rightarrow> 16 word"

text \<open>
  \<^verbatim>\<open>
  async finish_auth( result, interactive, callback ) {
      if ( chrome.runtime.lastError ) {
          console.error( chrome.runtime.lastError );
          return callback();
      }
      result = this.parse_auth_response( result );
      if ( ! this.validate_id_token( result.id_token ) ) {
          if ( ! interactive ) {
              // Try interactive auth flow
              this.authorize();
          } else {
              console.error( `Authorization failed: ${result.error_message}` );
          }
          return;
      }
      this.id_token      = result.id_token;
      this.access_token  = result.access_token;
      this.is_authorized = true;
      result = await this.make_remote_request( this.me_url );
      if ( result.ok ) {
          result = await result.json();
          this.user.email = result.EmailAddress;
      }
      const sync_data = { access_token: ..., id_token: ..., user: ..., current_nonce: ...,
                          is_authorized: ... };
      chrome.storage.sync.set( sync_data, data => this.fetch_message_count() );
      return callback();
  }
  \<close>
  The model returns the session, the calls made in order, and how the method ended.
  The call of \<^verbatim>\<open>fetch_message_count\<close> in the store's callback is a later task of its
  own: it is not part of this call. The body of the \<^verbatim>\<open>/me\<close> response is its
  \<^verbatim>\<open>EmailAddress\<close> member.
\<close>

definition finish_auth ::
  "runtime \<Rightarrow> auth_env \<Rightarrow> session \<Rightarrow> bool \<Rightarrow> session \<times> event list \<times> outcome" where
  "finish_auth m e s interactive =
     (case last_error e of
        Some err \<Rightarrow> (s, [ConsoleError err, Callback], Returned)
      | None \<Rightarrow>
          (let result = parse_auth_response (flow_result e)
           in (case validate_id_token m (decoder e) (clock e) s (result ''id_token'') of
                 Inl err \<Rightarrow> (s, [], Threw)
               | Inr (valid, s1) \<Rightarrow>
                   if \<not> valid then
                     (if \<not> interactive then
                        (let (s2, launch) = authorize m (next_rnd_nonce e) (next_rnd_state e) s1 True
                         in (s2, [launch], Returned))
                      else
                        (s1, [ConsoleError (''Authorization failed: ''
                                             @ to_string (result ''error_message''))],
                         Returned))
                   else
                     (let s2 = s1\<lparr>id_token := result ''id_token'',
                                   access_token := result ''access_token'',
                                   is_authorized := True\<rparr>;
                          request = Fetch (make_remote_request s2 (me_url m) None)
                      in (case me_response e of
                            None \<Rightarrow> (s2, [request], Threw)
                          | Some r \<Rightarrow>
                              if ok r then
                                (case json r of
                                   None \<Rightarrow> (s2, [request], Threw)
                                 | Some address \<Rightarrow>
                                     (let s3 = s2\<lparr>user := (user s2)\<lparr>email := address\<rparr>\<rparr>
                                      in (s3, [request, StorageSyncSet s3, Callback], Returned)))
                              else (s2, [request, StorageSyncSet s2, Callback], Returned))))))"

subsection \<open>Fetching the message count\<close>

text \<open>
  What one call of \<^verbatim>\<open>fetch_message_count\<close> meets: the answer to its first request, the
  random values and the environment of the reauthorization it may start, and the
  answer to its second request.
\<close>

record fetch_env =
  first_response :: "mail_folder list response option"
  reauth_rnd_nonce :: "nat \<Rightarrow> 16 word"
  reauth_rnd_state :: "nat \<Rightarrow> 16 word"
  reauth :: auth_env
  second_response :: "mail_folder list response option"

text \<open>
  The end of the method, from the test \<^verbatim>\<open>! response.ok\<close> on. The body of the response is
  its \<^verbatim>\<open>value\<close> member, the list of folders.
\<close>

definition finish_fetch :: "mail_folder list response \<Rightarrow> event list \<times> outcome" where
  "finish_fetch response =
     (if \<not> ok response then ([ConsoleError ''Fetch message count failed!'', ConsoleLog], Returned)
      else (case json response of
              None \<Rightarrow> ([], Threw)
            | Some folders \<Rightarrow>
                ([update_status_badge (calculate_total_unread_messages folders)], Returned)))"

definition mail_query :: query where
  "mail_query = [(''$filter'', Str (encodeURIComponent ''UnreadItemCount gt 0'')),
                 (''$top'', Str ''50'')]"

text \<open>
  \<^verbatim>\<open>
  async fetch_message_count() {
      if ( ! this.is_authorized ) { return; }
      const query = { $filter: encodeURIComponent( 'UnreadItemCount gt 0' ), $top: '50' }
      const url = this.generate_request_url( this.mail_folders_url, query );
      let response = await this.make_remote_request( url );
      if ( ! response.ok && response.status < 500 ) {
          // Token is expired. Re-authorize.
          const interactive = false;
          await this.authorize( interactive );
          response = await this.make_remote_request( this.mail_folders_url, query );
      }
      ...
  }
  \<close>
  \<^verbatim>\<open>await this.authorize( interactive )\<close> goes on when \<^verbatim>\<open>finish_auth\<close> has called
  \<^verbatim>\<open>callback()\<close>; when \<^verbatim>\<open>finish_auth\<close> ends without that call, the method waits for ever.
\<close>

definition fetch_message_count ::
  "runtime \<Rightarrow> fetch_env \<Rightarrow> session \<Rightarrow> session \<times> event list \<times> outcome" where
  "fetch_message_count m e s =
     (if \<not> is_authorized s then (s, [], Returned)
      else
        (let query = mail_query;
             url = generate_request_url (mail_folders_url m) query;
             request = Fetch (make_remote_request s url None)
         in (case first_response e of
               None \<Rightarrow> (s, [request], Threw)
             | Some response \<Rightarrow>
                 if \<not> ok response \<and> status response < 500 then
                   (let (s1, launch) = authorize m (reauth_rnd_nonce e) (reauth_rnd_state e) s False;
                        (s2, events, ended) = finish_auth m (reauth e) s1 False
                    in if Callback \<in> set events then
                         (let again = Fetch (make_remote_request s2 (mail_folders_url m) (Some query))
                          in (case second_response e of
                                None \<Rightarrow> (s2, request # launch # events @ [again], Threw)
                              | Some response2 \<Rightarrow>
                                  (let (last_events, ended2) = finish_fetch response2
                                   in (s2, request # launch # events @ again # last_events, ended2))))
                       else (s2, request # launch # events, Pending))
                 else
                   (let (last_events, ended2) = finish_fetch response
                    in (s, request # last_events, ended2)))))"

subsection \<open>The click handler and the start\<close>

text \<open>
  \<^verbatim>\<open>
  onClicked() {
      if ( ! this.is_authorized ) { this.authorize(); return; }
      window.open( 'https://outlook.live.com/owa' );
  }
  \<close>
\<close>

definition onClicked ::
  "runtime \<Rightarrow> (nat \<Rightarrow> 16 word) \<Rightarrow> (nat \<Rightarrow> 16 word) \<Rightarrow> session \<Rightarrow> session \<times> event" where
  "onClicked m rnd_nonce rnd_state s =
     (if \<not> is_authorized s then authorize m rnd_nonce rnd_state s True
      else (s, WindowOpen ''https://outlook.live.com/owa''))"

text \<open>
  The callback of \<^verbatim>\<open>chrome.storage.sync.get( defaults, ... )\<close> in \<^verbatim>\<open>initialize\<close>: the five
  fields come from the store, or from the defaults (the session's own values) when the
  store holds nothing. The script writes the five fields together, so the store holds
  all of them or none.

  The store is the host's. What it gives back for a field that was written as
  \<^verbatim>\<open>undefined\<close> is not the script's to say: a store that serialises like JSON leaves
  such a property out, and the default shows in its place. \<open>keeps\<close> is that choice of
  the host: true when the store gives \<^verbatim>\<open>undefined\<close> back as written. (A property of
  \<^verbatim>\<open>user\<close> that is left out reads as \<^verbatim>\<open>undefined\<close> either way.)
\<close>

definition read_back :: "bool \<Rightarrow> jsval \<Rightarrow> jsval \<Rightarrow> jsval" where
  "read_back keeps written fallback =
     (if written = Undefined \<and> \<not> keeps then fallback else written)"

definition initialize :: "bool \<Rightarrow> session option \<Rightarrow> session \<Rightarrow> session" where
  "initialize keeps store s =
     (case store of
        None \<Rightarrow>
          s\<lparr>access_token := access_token s,
            id_token := id_token s,
            is_authorized := is_authorized s,
            current_nonce := current_nonce s,
            user := user s\<rparr>
      | Some data \<Rightarrow>
          s\<lparr>access_token := read_back keeps (access_token data) (access_token s),
            id_token := read_back keeps (id_token data) (id_token s),
            is_authorized := is_authorized data,
            current_nonce := read_back keeps (current_nonce data) (current_nonce s),
            user := user data\<rparr>)"

subsection \<open>The older copy of the script\<close>

text \<open>
  \<^verbatim>\<open>src/unnamed/part_000\<close> has the same class with an older \<^verbatim>\<open>authorize\<close>, which takes the
  flow's result in a callback of its own and returns no promise, and an older
  \<^verbatim>\<open>fetch_message_count\<close>. Its \<^verbatim>\<open>validate_id_token\<close>, \<^verbatim>\<open>parse_auth_response\<close>,
  \<^verbatim>\<open>create_nonce\<close> and \<^verbatim>\<open>update_status_badge\<close> are those above.
  \<^verbatim>\<open>
  const query = {
      client_id: this.manifest.oauth2.client_id,
      redirect_url: encodeURIComponent( redirect_url ),
      response_type: 'id_token token',
      scope: encodeURIComponent( scope ),
      response_mode: 'fragment',
      nonce: this.create_nonce(),
  };
  if ( ! interactive ) {
      Object.assign( query, { prompt: 'none',
          domain_hint: this.user.domain_type, login_hint: this.user.signin_name });
  }
  this.current_nonce = query['nonce'];
  let request_url = this.manifest.oauth2.auth_url;
  for ( const key of Object.keys( query ) ) { request_url += `${key}=${query[ key ]}&`; }
  const request_details = { url: request_url, interactive: interactive };
  chrome.identity.launchWebAuthFlow( request_details, result => { ... } );
  \<close>
\<close>

definition authorize_part_000 ::
  "runtime \<Rightarrow> (nat \<Rightarrow> 16 word) \<Rightarrow> session \<Rightarrow> bool \<Rightarrow> session \<times> event" where
  "authorize_part_000 m rnd s interactive =
     (let scope = js_join '' '' (scopes m);
          query = [(''client_id'', Str (client_id m)),
                   (''redirect_url'', Str (encodeURIComponent (redirect_url m))),
                   (''response_type'', Str ''id_token token''),
                   (''scope'', Str (encodeURIComponent scope)),
                   (''response_mode'', Str ''fragment''),
                   (''nonce'', Str (create_nonce rnd))];
          query = (if \<not> interactive then
                     object_assign query
                       [(''prompt'', Str ''none''),
                        (''domain_hint'', domain_type (user s)),
                        (''login_hint'', signin_name (user s))]
                   else query);
          request_url =
            foldl (\<lambda>url key. url @ key @ ''='' @ to_string (get_property query key) @ ''&'')
              (auth_url m) (map fst query)
      in (s\<lparr>current_nonce := get_property query ''nonce''\<rparr>,
          LaunchWebAuthFlow request_url interactive))"

definition mail_folders_url_part_000 :: "runtime \<Rightarrow> string" where
  "mail_folders_url_part_000 m = api_endpoint m @ ''/me/MailFolders''"

text \<open>
  The older \<^verbatim>\<open>make_remote_request\<close> sends no \<^verbatim>\<open>x-AnchorMailbox\<close> header (and sets
  \<^verbatim>\<open>credentials: 'include'\<close>, which the model of a request does not record).
\<close>

definition make_remote_request_part_000 ::
  "session \<Rightarrow> string \<Rightarrow> query option \<Rightarrow> request_info" where
  "make_remote_request_part_000 s url body =
     (let headers = [(''Authorization'', ''Bearer '' @ to_string (access_token s)),
                     (''Accept'', ''application/json'')]
      in (case body of
            None \<Rightarrow> \<lparr>req_url = url, req_method = GET, req_headers = headers, req_body = None\<rparr>
          | Some b \<Rightarrow> \<lparr>req_url = url, req_method = POST, req_headers = headers, req_body = Some b\<rparr>))"

definition finish_fetch_part_000 :: "mail_folder list response \<Rightarrow> event list \<times> outcome" where
  "finish_fetch_part_000 response =
     (if \<not> ok response then ([ConsoleError ''Fetch message count failed!'', ConsoleLog], Returned)
      else (case json response of
              None \<Rightarrow> ([], Threw)
            | Some folders \<Rightarrow>
                ([update_status_badge (calculate_total_unread_messages_part_000 folders)],
                 Returned)))"

text \<open>
  \<^verbatim>\<open>
  async fetch_message_count() {
      if ( ! this.is_authorized ) { return; }
      let response = await this.make_remote_request( this.mail_folders_url );
      if ( ! response.ok && response.status < 500 ) {
          // Token is expired. Re-authorize.
          const interactive = false;
          this.authorize( interactive );
          response = await this.make_remote_request( this.mail_folders_url );
      }
      ...
  }
  \<close>
  Here \<^verbatim>\<open>this.authorize( interactive )\<close> returns as soon as it has launched the flow, and
  the second request is made in the same turn: the flow's callback is a later task. Of
  the environment, the call uses the two answers and the random values of the nonce.
\<close>

definition fetch_message_count_part_000 ::
  "runtime \<Rightarrow> fetch_env \<Rightarrow> session \<Rightarrow> session \<times> event list \<times> outcome" where
  "fetch_message_count_part_000 m e s =
     (if \<not> is_authorized s then (s, [], Returned)
      else
        (let url = mail_folders_url_part_000 m;
             request = Fetch (make_remote_request_part_000 s url None)
         in (case first_response e of
               None \<Rightarrow> (s, [request], Threw)
             | Some response \<Rightarrow>
                 if \<not> ok response \<and> status response < 500 then
                   (let (s1, launch) = authorize_part_000 m (reauth_rnd_nonce e) s False;
                        again = Fetch (make_remote_request_part_000 s1 url None)
                    in (case second_response e of
                          None \<Rightarrow> (s1, [request, launch, again], Threw)
                        | Some response2 \<Rightarrow>
                            (let (last_events, ended) = finish_fetch_part_000 response2
                             in (s1, request # launch # again # last_events, ended))))
                 else
                   (let (last_events, ended) = finish_fetch_part_000 response
                    in (s, request # last_events, ended)))))"

text \<open>
  The callback the older \<^verbatim>\<open>authorize\<close> hands to \<^verbatim>\<open>launchWebAuthFlow\<close>:
  \<^verbatim>\<open>
  result => {
      if ( chrome.runtime.lastError ) { console.error( chrome.runtime.lastError ); return; }
      result = this.parse_auth_response( result );
      if ( ! this.validate_id_token( result.id_token ) ) {
          console.error( 'Id token validation failed!' );
          return;
      }
      this.id_token      = result.id_token;
      this.access_token  = result.access_token;
      this.is_authorized = true;
      console.log(this);
      chrome.storage.sync.set( { ... } );
      this.fetch_message_count();
  }
  \<close>
  \<open>interactive\<close> is the argument of the call of \<^verbatim>\<open>authorize\<close> that made the callback; the
  callback does not read it. \<open>fe\<close> is the environment of the call of
  \<^verbatim>\<open>fetch_message_count\<close> at its end.
\<close>

definition auth_callback_part_000 ::
  "runtime \<Rightarrow> auth_env \<Rightarrow> fetch_env \<Rightarrow> session \<Rightarrow> bool \<Rightarrow> session \<times> event list \<times> outcome" where
  "auth_callback_part_000 m e fe s interactive =
     (case last_error e of
        Some err \<Rightarrow> (s, [ConsoleError err], Returned)
      | None \<Rightarrow>
          (let result = parse_auth_response (flow_result e)
           in (case validate_id_token m (decoder e) (clock e) s (result ''id_token'') of
                 Inl err \<Rightarrow> (s, [], Threw)
               | Inr (valid, s1) \<Rightarrow>
                   if \<not> valid then (s1, [ConsoleError ''Id token validation failed!''], Returned)
                   else
                     (let s2 = s1\<lparr>id_token := result ''id_token'',
                                   access_token := result ''access_token'',
                                   is_authorized := True\<rparr>;
                          (s3, events, ended) = fetch_message_count_part_000 m fe s2
                      in (s3, ConsoleLog # StorageSyncSet s2 # events, Returned)))))"

subsection \<open>The states the script can reach\<close>

text \<open>
  A token field is set when it holds a string. \<open>tokens_paired\<close> says that the two
  tokens are both set or both \<^verbatim>\<open>null\<close>.
\<close>

fun token_set :: "jsval \<Rightarrow> bool" where
  "token_set (Str t) = True"
| "token_set _ = False"

definition tokens_paired :: "session \<Rightarrow> bool" where
  "tokens_paired s =
     (token_set (access_token s) \<and> token_set (id_token s)
      \<or> access_token s = Null \<and> id_token s = Null)"

text \<open>
  What holds instead. The two token fields of a session, and the two values
  \<^verbatim>\<open>finish_auth\<close> takes from its parsed response. \<open>accepts\<close>: \<^verbatim>\<open>finish_auth\<close> gets past its
  two early returns, that is, there is no \<^verbatim>\<open>lastError\<close> and \<^verbatim>\<open>validate_id_token\<close>
  returns true for \<^verbatim>\<open>result.id_token\<close>. \<open>tokens_after\<close>: the token fields \<^verbatim>\<open>finish_auth\<close>
  leaves. \<open>reauthorizes\<close>: \<^verbatim>\<open>fetch_message_count\<close> takes the path of the expired token.
\<close>

definition token_fields :: "session \<Rightarrow> jsval \<times> jsval" where
  "token_fields s = (id_token s, access_token s)"

definition accepted_tokens :: "auth_env \<Rightarrow> jsval \<times> jsval" where
  "accepted_tokens e =
     (parse_auth_response (flow_result e) ''id_token'',
      parse_auth_response (flow_result e) ''access_token'')"

definition accepts :: "runtime \<Rightarrow> auth_env \<Rightarrow> session \<Rightarrow> bool" where
  "accepts m e s =
     (case last_error e of
        Some err \<Rightarrow> False
      | None \<Rightarrow>
          (case validate_id_token m (decoder e) (clock e) s
                  (parse_auth_response (flow_result e) ''id_token'') of
             Inl err \<Rightarrow> False
           | Inr (valid, s1) \<Rightarrow> valid))"

definition tokens_after :: "runtime \<Rightarrow> auth_env \<Rightarrow> session \<Rightarrow> jsval \<times> jsval" where
  "tokens_after m e s = (if accepts m e s then accepted_tokens e else token_fields s)"


text \<open>
  The state of the two fields: both are \<^verbatim>\<open>null\<close>, or they come from one response that
  \<^verbatim>\<open>finish_auth\<close> accepted: the id token is its \<^verbatim>\<open>id_token\<close> parameter, and the access
  token is its \<^verbatim>\<open>access_token\<close> parameter, or \<^verbatim>\<open>null\<close> in place of an \<^verbatim>\<open>undefined\<close>
  one that the store did not keep.
\<close>

definition from_accepted_response :: "runtime \<Rightarrow> session \<Rightarrow> bool" where
  "from_accepted_response m s =
     (\<exists>e s0. accepts m e s0 \<and> id_token s = fst (accepted_tokens e) \<and>
         (access_token s = snd (accepted_tokens e)
          \<or> snd (accepted_tokens e) = Undefined \<and> access_token s = Null))"

definition tokens_assigned_together :: "runtime \<Rightarrow> session \<Rightarrow> bool" where
  "tokens_assigned_together m s =
     (id_token s = Null \<and> access_token s = Null \<or> from_accepted_response m s)"

text \<open>The store after a call: the last \<^verbatim>\<open>chrome.storage.sync.set\<close> of the call wins.\<close>

fun stored :: "event list \<Rightarrow> session option \<Rightarrow> session option" where
  "stored [] store = store"
| "stored (StorageSyncSet d # events) store = stored events (Some d)"
| "stored (ev # events) store = stored events store"

text \<open>What the store holds, and what a call writes to it, keeps \<open>tokens_assigned_together\<close>.\<close>

definition store_ok :: "runtime \<Rightarrow> session option \<Rightarrow> bool" where
  "store_ok m store = (case store of None \<Rightarrow> True | Some d \<Rightarrow> tokens_assigned_together m d)"

definition sets_ok :: "runtime \<Rightarrow> event list \<Rightarrow> bool" where
  "sets_ok m events =
     list_all (\<lambda>ev. case ev of StorageSyncSet d \<Rightarrow> tokens_assigned_together m d | _ \<Rightarrow> True)
       events"

text \<open>
  The session and the store, from the start of the script on an empty store: the
  script starts (again) and reads the store, the user clicks, a web flow delivers its
  result to \<^verbatim>\<open>finish_auth\<close>, the alarm (or the store's callback) calls
  \<^verbatim>\<open>fetch_message_count\<close>. The environment of each step is arbitrary, and so are the
  kind of attempt a flow's result is taken to answer and what the store does with
  \<^verbatim>\<open>undefined\<close>. A call is one step: the two token fields are written in \<^verbatim>\<open>finish_auth\<close>
  by two assignments in a row, with no \<^verbatim>\<open>await\<close> between them, and nowhere else but at
  the start.
\<close>

inductive reachable :: "runtime \<Rightarrow> session \<times> session option \<Rightarrow> bool" for m :: runtime where
  start: "reachable m (initialize keeps None new_session, None)"
| restart: "reachable m (s, store) \<Longrightarrow> reachable m (initialize keeps store new_session, store)"
| click: "reachable m (s, store) \<Longrightarrow> onClicked m r1 r2 s = (s', ev) \<Longrightarrow> reachable m (s', store)"
| flow_done:
    "reachable m (s, store) \<Longrightarrow> finish_auth m e s interactive = (s', events, ended) \<Longrightarrow>
       reachable m (s', stored events store)"
| alarm:
    "reachable m (s, store) \<Longrightarrow> fetch_message_count m fe s = (s', events, ended) \<Longrightarrow>
       reachable m (s', stored events store)"

subsection \<open>Concrete inputs\<close>

text \<open>The inputs at which the theorems below evaluate the script.\<close>

definition example_runtime :: runtime where
  "example_runtime =
     \<lparr>client_id = ''app-1'',
      auth_url = ''https://login.example/authorize?'',
      api_endpoint = ''https://api.example/v2.0'',
      scopes = [''openid'', ''mail.read''],
      redirect_url = ''https://ext.example/callback''\<rparr>"

definition example_folders :: "mail_folder list" where
  "example_folders =
     [\<lparr>DisplayName = ''Archive'', UnreadItemCount = 5\<rparr>,
      \<lparr>DisplayName = ''Inbox'', UnreadItemCount = 3\<rparr>,
      \<lparr>DisplayName = ''Sent'', UnreadItemCount = 0\<rparr>]"

text \<open>
  A session that waits for the answer to an authorization; its nonce is the one
  \<^verbatim>\<open>create_nonce\<close> makes of eight zeros.
\<close>

definition zero_nonce :: string where
  "zero_nonce = ''00000000-0000-0000-0000-000000000000''"

definition waiting_session :: session where
  "waiting_session = new_session\<lparr>current_nonce := Str zero_nonce\<rparr>"

text \<open>
  Payloads with the right nonce, audience and issuer. \<open>claims_without_dates\<close> has no
  \<^verbatim>\<open>nbf\<close> and no \<^verbatim>\<open>exp\<close>; \<open>claims_far_future\<close> is valid for an hour in the year
  318857; \<open>claims_in_date\<close> is valid for an hour from 14 November 2023, 22:13:20 UTC.
  The decoder gives the payload for the token \<open>h.p.s\<close> and throws on any other.
\<close>

definition claims_without_dates :: id_claims where
  "claims_without_dates =
     \<lparr>nonce = Str zero_nonce, aud = Str ''app-1'',
      iss = Str ''https://login.microsoftonline.com/tenant-1/v2.0'', tid = Str ''tenant-1'',
      name = Str ''Ann'', preferred_username = Str ''ann@mail.example'',
      nbf = None, exp = None\<rparr>"

definition claims_far_future :: id_claims where
  "claims_far_future =
     claims_without_dates\<lparr>nbf := Some 10000000000000, exp := Some 10000000003600\<rparr>"

definition claims_in_date :: id_claims where
  "claims_in_date = claims_without_dates\<lparr>nbf := Some 1700000000, exp := Some 1700003600\<rparr>"

definition decoder_of :: "id_claims \<Rightarrow> string \<Rightarrow> id_claims option" where
  "decoder_of c t = (if t = ''h.p.s'' then Some c else None)"

text \<open>
  An authorized session, and a call of \<^verbatim>\<open>fetch_message_count\<close> whose first request is
  answered 401. \<open>reauth_refused\<close>: the silent flow fails with \<^verbatim>\<open>lastError\<close>.
  \<open>reauth_no_id_token\<close>: the silent flow answers with an access token only, as its
  \<^verbatim>\<open>response_type: 'token'\<close> asks. \<open>flow_denied\<close>: a flow answers with an error.
  \<open>flow_id_token_only\<close>: a flow answers with a valid id token and no access token.
\<close>

definition authorized_session :: session where
  "authorized_session =
     \<lparr>is_authorized = True, access_token = Str ''at-1'', id_token = Str ''h.p.s'',
      current_nonce = Str zero_nonce,
      user = \<lparr>display_name = Str ''Ann'', signin_name = Str ''ann@mail.example'',
              domain_type = Str ''organizations'', email = Str ''ann@mail.example''\<rparr>\<rparr>"

definition answer_401 :: "mail_folder list response" where
  "answer_401 = \<lparr>ok = False, status = 401, json = None\<rparr>"

definition answer_folders :: "mail_folder list response" where
  "answer_folders = \<lparr>ok = True, status = 200, json = Some example_folders\<rparr>"

definition answer_me :: "jsval response" where
  "answer_me = \<lparr>ok = True, status = 200, json = Some (Str ''ann@mail.example'')\<rparr>"

definition reauth_refused :: auth_env where
  "reauth_refused =
     \<lparr>last_error = Some ''User interaction required.'', flow_result = [],
      decoder = decoder_of claims_in_date, clock = 1700000000000, me_response = Some answer_me,
      next_rnd_nonce = (\<lambda>i. 2), next_rnd_state = (\<lambda>i. 3)\<rparr>"

definition reauth_no_id_token :: auth_env where
  "reauth_no_id_token =
     reauth_refused
       \<lparr>last_error := None,
        flow_result := ''https://ext.example/callback#access_token=at-2&state=s''\<rparr>"

definition flow_denied :: auth_env where
  "flow_denied =
     reauth_refused
       \<lparr>last_error := None,
        flow_result := ''https://ext.example/callback#error=access_denied&error_description=no''\<rparr>"

definition flow_id_token_only :: auth_env where
  "flow_id_token_only =
     reauth_refused
       \<lparr>last_error := None,
        flow_result := ''https://ext.example/callback#id_token=h.p.s&state=s''\<rparr>"

definition flow_both_tokens :: auth_env where
  "flow_both_tokens =
     reauth_refused
       \<lparr>last_error := None,
        flow_result := ''https://ext.example/callback#access_token=at-1&id_token=h.p.s&state=s''\<rparr>"

text \<open>The session after \<open>flow_id_token_only\<close> was accepted.\<close>

definition id_only_session :: session where
  "id_only_session =
     \<lparr>is_authorized = True, access_token = Undefined, id_token = Str ''h.p.s'',
      current_nonce = Str zero_nonce,
      user = \<lparr>display_name = Str ''Ann'', signin_name = Str ''ann@mail.example'',
              domain_type = Str ''organizations'', email = Str ''ann@mail.example''\<rparr>\<rparr>"

definition expired_env :: "auth_env \<Rightarrow> fetch_env" where
  "expired_env a =
     \<lparr>first_response = Some answer_401,
      reauth_rnd_nonce = (\<lambda>i. 0), reauth_rnd_state = (\<lambda>i. 1),
      reauth = a,
      second_response = Some answer_folders\<rparr>"

section \<open>Properties\<close>

subsection \<open>Splitting strings\<close>

lemma js_split_nonempty: "js_split c s \<noteq> []"
  by (induction s) (auto split: list.splits)

lemma js_split_append:
  "js_split c (a @ c # b) = js_split c a @ js_split c b"
  by (induction a) (auto simp: js_split_nonempty split: list.splits)

lemma js_split_no_sep: "c \<notin> set a \<Longrightarrow> js_split c a = [a]"
  by (induction a) auto

lemma js_split_join:
  "params \<noteq> [] \<Longrightarrow> \<forall>p \<in> set params. c \<notin> set p \<Longrightarrow>
     js_split c (js_join [c] params) = params"
  by (induction "[c]" params rule: js_join.induct)
     (auto simp: js_split_no_sep js_split_append)

lemma indexOf_first: "c \<notin> set pre \<Longrightarrow> indexOf (pre @ c # rest) c = int (length pre)"
  by (induction pre) (auto simp: Let_def)

subsection \<open>The redirect response\<close>

lemma fragment_after_hash:
  "CHR ''#'' \<notin> set pre \<Longrightarrow>
     substring (pre @ CHR ''#'' # frag) (indexOf (pre @ CHR ''#'' # frag) CHR ''#'' + 1) = frag"
  by (simp add: indexOf_first substring_def nat_add_distrib)

lemma set_param_pair:
  "CHR ''='' \<notin> set key \<Longrightarrow> CHR ''='' \<notin> set v \<Longrightarrow> key \<noteq> ''__proto__'' \<Longrightarrow>
     set_param result (key @ CHR ''='' # v @ CHR ''='' # rest) = result (key := Str v)"
  by (simp add: set_param_def js_split_append js_split_no_sep at_index_def Let_def)

text \<open>A parameter named \<open>__proto__\<close> stores nothing, whatever its value.\<close>

lemma set_param_proto:
  "set_param result (''__proto__'' @ CHR ''='' # v) = result"
proof -
  have "js_split CHR ''='' (''__proto__'' @ CHR ''='' # v) = ''__proto__'' # js_split CHR ''='' v"
    using js_split_append [of "CHR ''=''" "''__proto__''" v] by (simp add: js_split_no_sep)
  then show ?thesis
    by (simp add: set_param_def at_index_def Let_def)
qed

lemma foldl_set_param_other:
  "\<forall>q \<in> set qs. param_key q \<noteq> key \<Longrightarrow> foldl set_param result qs key = result key"
  by (induction qs arbitrary: result) (auto simp: set_param_def param_key_def Let_def)

text \<open>
  Claim C10, as the script has it. A redirect whose fragment is the parameters \<open>params\<close>
  joined by \<open>&\<close>, one of them \<open>key=v=rest\<close> with a key other than \<open>__proto__\<close>: its
  raw value \<open>v=rest\<close> holds an \<open>=\<close>, and what \<open>parse_auth_response\<close> stores under
  \<open>key\<close> is \<open>v\<close> alone, the part of the value before its first \<open>=\<close> (the text between
  the first and the second \<open>=\<close> of the parameter). The parameter is the last one of
  its key, so no later one overwrites it.
\<close>

theorem parse_auth_response_truncates:
  assumes "CHR ''#'' \<notin> set pre"
    and "params = ps @ [key @ ''='' @ v @ ''='' @ rest] @ qs"
    and "\<forall>p \<in> set params. CHR ''&'' \<notin> set p"
    and "CHR ''='' \<notin> set key" and "CHR ''='' \<notin> set v"
    and "key \<noteq> ''__proto__''"
    and "\<forall>q \<in> set qs. param_key q \<noteq> key"
  shows "parse_auth_response (pre @ ''#'' @ js_join ''&'' params) key = Str v"
proof -
  have ne: "params \<noteq> []" using assms(2) by simp
  have "js_split CHR ''&'' (js_join ''&'' params) = params"
    using js_split_join [OF ne assms(3)] by simp
  then have "parse_auth_response (pre @ ''#'' @ js_join ''&'' params) key
      = foldl set_param empty_object params key"
    using fragment_after_hash [OF assms(1), of "js_join ''&'' params"]
    by (simp add: parse_auth_response_def)
  also have "\<dots> = foldl set_param
        ((foldl set_param empty_object ps) (key := Str v)) qs key"
    using set_param_pair [OF assms(4,5,6)] by (simp add: assms(2))
  also have "\<dots> = Str v"
    using foldl_set_param_other [OF assms(7)] by simp
  finally show ?thesis .
qed

theorem parse_auth_response_truncates_witness:
  "parse_auth_response ''https://id.example/callback#access_token=YWJj==&state=1'' ''access_token''
     = Str ''YWJj''"
  using parse_auth_response_truncates
    [of "''https://id.example/callback''" "[''access_token=YWJj=='', ''state=1'']" "[]"
        "''access_token''" "''YWJj''" "''=''" "[''state=1'']"]
  by (simp add: param_key_def at_index_def)

text \<open>
  Claim C10 as stated fails for one key: of the parameter \<open>__proto__=YWJj==\<close>, whose
  value holds an \<open>=\<close>, nothing is stored, neither the part before the \<open>=\<close> nor any
  other: the result has no property of its own.
\<close>

theorem proto_parameter_is_not_stored:
  "parse_auth_response ''https://id.example/callback#__proto__=YWJj=='' = empty_object
   \<and> parse_auth_response ''https://id.example/callback#__proto__=YWJj=='' ''__proto__''
       \<noteq> Str ''YWJj''"
proof -
  have "js_split CHR ''&''
          (substring ''https://id.example/callback#__proto__=YWJj==''
             (indexOf ''https://id.example/callback#__proto__=YWJj=='' CHR ''#'' + 1))
        = [''__proto__=YWJj=='']"
    by code_simp
  then have "parse_auth_response ''https://id.example/callback#__proto__=YWJj=='' = empty_object"
    using set_param_proto [of empty_object "''YWJj==''"]
    by (simp add: parse_auth_response_def)
  then show ?thesis
    by (simp add: empty_object_def)
qed

subsection \<open>The unread total\<close>

lemma count_loop_sum:
  "count_loop count fs =
     count + sum_list (map UnreadItemCount (filter (\<lambda>f. DisplayName f \<noteq> ''Archive'') fs))"
  by (induction fs arbitrary: count) auto

lemma count_loop_part_000_sum:
  "count_loop_part_000 count fs = count + sum_list (map UnreadItemCount fs)"
  by (induction fs arbitrary: count) auto

text \<open>
  The script under \<^verbatim>\<open>src/chrome\<close> leaves the folders named \<open>Archive\<close> out of the total,
  for every list of folders.
\<close>

lemma calculate_total_unread_messages_sum:
  "calculate_total_unread_messages fs =
     sum_list (map UnreadItemCount (filter (\<lambda>f. DisplayName f \<noteq> ''Archive'') fs))"
  by (simp add: calculate_total_unread_messages_def count_loop_sum)

lemma calculate_total_unread_messages_examples:
  "calculate_total_unread_messages example_folders = 3"
  "calculate_total_unread_messages [] = 0"
  by (simp_all add: calculate_total_unread_messages_def example_folders_def)

lemma calculate_total_unread_messages_part_000_sum:
  "calculate_total_unread_messages_part_000 fs = sum_list (map UnreadItemCount fs)"
  by (simp add: calculate_total_unread_messages_part_000_def count_loop_part_000_sum)

text \<open>
  Claim C5. The unread total is the sum of \<open>UnreadItemCount\<close> over the folders not named
  \<open>Archive\<close>, so that the folders Archive 5, Inbox 3, Sent 0 give 3. The older copy
  of \<open>calculate_total_unread_messages\<close> adds every folder: on these folders it gives 8,
  where the copy under \<^verbatim>\<open>src/chrome\<close> gives 3.
\<close>

theorem older_copy_counts_archive:
  "calculate_total_unread_messages_part_000 example_folders = 8
   \<and> calculate_total_unread_messages example_folders = 3"
  by (simp add: calculate_total_unread_messages_part_000_def calculate_total_unread_messages_def
      example_folders_def)

subsection \<open>Validation of the id token\<close>

lemma validate_id_token_session:
  assumes "validate_id_token m jwt_decode now s token = Inr (valid, s')"
  shows "s' = (if valid then s\<lparr>user := user s'\<rparr> else s)"
  using assms
  by (auto simp: validate_id_token_def accept_claims_def Let_def
      split: jsval.splits if_splits option.splits)

lemma validate_id_token_accepts_string:
  assumes "validate_id_token m jwt_decode now s token = Inr (True, s')"
  shows "token_set token"
  using assms
  by (auto simp: validate_id_token_def split: jsval.splits if_splits option.splits)

text \<open>
  A token that does not split into three parts is rejected whatever the decoder would
  do with it: the decoder is not asked.
\<close>

lemma validate_id_token_three_parts_first:
  "length (js_split CHR ''.'' t) \<noteq> 3 \<Longrightarrow>
     validate_id_token m jwt_decode now s (Str t) = Inr (False, s)"
  by (simp add: validate_id_token_def)

text \<open>
  For a payload that has both dates, \<open>nbf = a\<close> and \<open>exp = b\<close>, within the range of
  \<^verbatim>\<open>Date\<close>: the token is accepted when all the conditions hold and rejected when one
  fails. \<open>now\<close> is in milliseconds, the dates in seconds.
\<close>

lemma validate_id_token_with_dates:
  assumes "jwt_decode t = Some decoded"
    and "nbf decoded = Some a" and "exp decoded = Some b"
    and "\<bar>(a - 300) * 1000\<bar> \<le> 8640000000000000"
    and "\<bar>(b + 300) * 1000\<bar> \<le> 8640000000000000"
  shows "validate_id_token m jwt_decode now s (Str t) =
           Inr (if t \<noteq> [] \<and> length (js_split CHR ''.'' t) = 3 \<and>
                   nonce decoded = current_nonce s \<and> aud decoded = Str (client_id m) \<and>
                   iss decoded = Str (issuer_of (tid decoded)) \<and>
                   (a - 300) * 1000 \<le> now \<and> now \<le> (b + 300) * 1000
                then (True, accept_claims s decoded) else (False, s))"
  using assms
  by (auto simp: validate_id_token_def Let_def js_Date_def js_less_def)

text \<open>
  Claim C1. \<open>validate_id_token\<close> returns true exactly for a non-empty token of three
  parts whose payload has the session's nonce, the client id as audience, the issuer
  built from its own \<open>tid\<close>, and dates with the current time within
  \<open>[nbf - 300s, exp + 300s]\<close>. The script accepts a token whose payload has no dates at
  all, and one that is not valid before the year 318857, at a current time in 2023: the
  comparisons with an invalid date are false, and so is the test that would reject.
\<close>

theorem validate_accepts_without_dates:
  "validate_id_token example_runtime (decoder_of claims_without_dates) 1700000000000
       waiting_session (Str ''h.p.s'')
     = Inr (True, accept_claims waiting_session claims_without_dates)
   \<and> validate_id_token example_runtime (decoder_of claims_far_future) 1700000000000
       waiting_session (Str ''h.p.s'')
     = Inr (True, accept_claims waiting_session claims_far_future)"
  by (simp add: validate_id_token_def example_runtime_def claims_without_dates_def
      claims_far_future_def waiting_session_def issuer_of_def js_Date_def js_less_def
      decoder_of_def zero_nonce_def new_session_def)

text \<open>
  Claim C8. A token that \<open>validate_id_token\<close> rejects leaves the session as it was, the
  user's profile with it; the profile is written only when every check of the script
  has passed, as the last thing the method does. (When the decoder throws, the method
  has written nothing either: the model has no session to return then, and the caller
  goes on with its own.)
\<close>

theorem validate_id_token_writes_last:
  assumes "validate_id_token m jwt_decode now s token = Inr (valid, s')"
  shows "if valid
         then \<exists>t decoded.
                token = Str t \<and> t \<noteq> [] \<and> length (js_split CHR ''.'' t) = 3 \<and>
                jwt_decode t = Some decoded \<and>
                nonce decoded = current_nonce s \<and> aud decoded = Str (client_id m) \<and>
                iss decoded = Str (issuer_of (tid decoded)) \<and>
                \<not> js_less (Some now) (js_Date (map_option (\<lambda>n. (n - 300) * 1000) (nbf decoded))) \<and>
                \<not> js_less (js_Date (map_option (\<lambda>n. (n + 300) * 1000) (exp decoded))) (Some now) \<and>
                s' = accept_claims s decoded
         else s' = s \<and> user s' = user s"
  using assms
  by (auto simp: validate_id_token_def Let_def split: jsval.splits if_splits option.splits)

theorem validate_id_token_writes_last_witness:
  "validate_id_token example_runtime (decoder_of claims_in_date) 1800000000000
       authorized_session (Str ''h.p.s'') = Inr (False, authorized_session)
   \<and> user authorized_session =
       \<lparr>display_name = Str ''Ann'', signin_name = Str ''ann@mail.example'',
        domain_type = Str ''organizations'', email = Str ''ann@mail.example''\<rparr>"
proof -
  have h: "validate_id_token example_runtime (decoder_of claims_in_date) 1800000000000
       authorized_session (Str ''h.p.s'') = Inr (False, authorized_session)"
    by code_simp
  show ?thesis
    using validate_id_token_writes_last [OF h] h
    by (simp add: authorized_session_def)
qed

subsection \<open>Authorization\<close>

lemma authorize_session:
  "fst (authorize m r1 r2 s interactive) = s\<lparr>current_nonce := Str (create_nonce r1)\<rparr>"
  by (simp add: authorize_def auth_query_def object_assign_def get_property_def Let_def)

lemma authorize_launches:
  "snd (authorize m r1 r2 s interactive) =
     LaunchWebAuthFlow (generate_request_url (auth_url m) (auth_query m r1 r2 s interactive))
       interactive"
  by (simp add: authorize_def Let_def)

text \<open>
  The URL of a silent attempt, value by value: \<open>redirect_uri\<close> and \<open>scope\<close> pass
  through \<open>encodeURIComponent\<close>, every other value is written as it is.
\<close>

lemma silent_url:
  "snd (authorize m r1 r2 s False) =
     LaunchWebAuthFlow
       (auth_url m @ ''client_id='' @ client_id m
          @ ''&redirect_uri='' @ encodeURIComponent (redirect_url m)
          @ ''&response_type=token''
          @ ''&scope='' @ encodeURIComponent (js_join '' '' (scopes m))
          @ ''&response_mode=fragment''
          @ ''&nonce='' @ create_nonce r1
          @ ''&state='' @ create_nonce r2
          @ ''&prompt=none''
          @ ''&domain_hint='' @ to_string (domain_type (user s))
          @ ''&login_hint='' @ to_string (signin_name (user s)))
       False"
  by (simp add: authorize_def auth_query_def generate_request_url_def object_assign_def
      get_property_def Let_def)

text \<open>
  Claim C7. Every value of the query is percent-encoded exactly once in the
  authorization URL. For a user who signed in as \<open>ann@mail.example\<close>, the URL of the
  silent attempt ends in \<open>login_hint=ann@mail.example\<close>: the value is not encoded, and
  encoding it once gives \<open>ann%40mail.example\<close>.
\<close>

theorem login_hint_is_not_encoded:
  "authorize example_runtime (\<lambda>i. 0) (\<lambda>i. 1) authorized_session False =
     (authorized_session,
      LaunchWebAuthFlow
        ''https://login.example/authorize?client_id=app-1&redirect_uri=https%3A%2F%2Fext.example%2Fcallback&response_type=token&scope=openid%20mail.read&response_mode=fragment&nonce=00000000-0000-0000-0000-000000000000&state=00010001-0001-0001-0001-000100010001&prompt=none&domain_hint=organizations&login_hint=ann@mail.example''
        False)
   \<and> encodeURIComponent ''ann@mail.example'' = ''ann%40mail.example''"
  by code_simp

subsection \<open>An invalid id token\<close>

text \<open>
  Claim C4, as the script has it. When \<open>finish_auth\<close> finds the id token invalid: after
  a silent attempt it starts one interactive authorization, and only the nonce of the
  session changes; after an interactive attempt it logs the failure and the session is
  as it was. Either way \<open>is_authorized\<close>, the tokens and the profile keep their values:
  a session that was not authorized stays so, and one that was authorized stays
  authorized.
\<close>

theorem finish_auth_invalid_token:
  assumes "last_error e = None"
    and "validate_id_token m (decoder e) (clock e) s
           (parse_auth_response (flow_result e) ''id_token'') = Inr (False, s1)"
  shows "finish_auth m e s False =
           (s\<lparr>current_nonce := Str (create_nonce (next_rnd_nonce e))\<rparr>,
            [LaunchWebAuthFlow
               (generate_request_url (auth_url m)
                  (auth_query m (next_rnd_nonce e) (next_rnd_state e) s True)) True],
            Returned)
       \<and> finish_auth m e s True =
           (s,
            [ConsoleError (''Authorization failed: ''
               @ to_string (parse_auth_response (flow_result e) ''error_message''))],
            Returned)"
proof -
  have s1: "s1 = s"
    using validate_id_token_session [OF assms(2)] by simp
  obtain s2 launch where a: "authorize m (next_rnd_nonce e) (next_rnd_state e) s True = (s2, launch)"
    by (cases "authorize m (next_rnd_nonce e) (next_rnd_state e) s True")
  have "s2 = s\<lparr>current_nonce := Str (create_nonce (next_rnd_nonce e))\<rparr>"
    using authorize_session [of m "next_rnd_nonce e" "next_rnd_state e" s True] a by simp
  moreover have "launch = LaunchWebAuthFlow
               (generate_request_url (auth_url m)
                  (auth_query m (next_rnd_nonce e) (next_rnd_state e) s True)) True"
    using authorize_launches [of m "next_rnd_nonce e" "next_rnd_state e" s True] a by simp
  ultimately show ?thesis
    using assms a s1 by (simp add: finish_auth_def Let_def)
qed

theorem finish_auth_invalid_token_witness:
  "last_error flow_denied = None
   \<and> validate_id_token example_runtime (decoder flow_denied) (clock flow_denied) waiting_session
       (parse_auth_response (flow_result flow_denied) ''id_token'') = Inr (False, waiting_session)
   \<and> finish_auth example_runtime flow_denied waiting_session False =
       (waiting_session\<lparr>current_nonce := Str ''00020002-0002-0002-0002-000200020002''\<rparr>,
        [LaunchWebAuthFlow ''https://login.example/authorize?client_id=app-1&redirect_uri=https%3A%2F%2Fext.example%2Fcallback&response_type=id_token%20token&scope=openid%20mail.read&response_mode=fragment&nonce=00020002-0002-0002-0002-000200020002&state=00030003-0003-0003-0003-000300030003'' True],
        Returned)
   \<and> finish_auth example_runtime flow_denied waiting_session True =
       (waiting_session, [ConsoleError ''Authorization failed: undefined''], Returned)"
proof -
  have h1: "last_error flow_denied = None"
    by (simp add: flow_denied_def reauth_refused_def)
  have h2: "validate_id_token example_runtime (decoder flow_denied) (clock flow_denied)
       waiting_session (parse_auth_response (flow_result flow_denied) ''id_token'')
     = Inr (False, waiting_session)"
    by code_simp
  have n: "create_nonce (next_rnd_nonce flow_denied) = ''00020002-0002-0002-0002-000200020002''"
    by code_simp
  have u: "generate_request_url (auth_url example_runtime)
      (auth_query example_runtime (next_rnd_nonce flow_denied) (next_rnd_state flow_denied)
         waiting_session True)
     = ''https://login.example/authorize?client_id=app-1&redirect_uri=https%3A%2F%2Fext.example%2Fcallback&response_type=id_token%20token&scope=openid%20mail.read&response_mode=fragment&nonce=00020002-0002-0002-0002-000200020002&state=00030003-0003-0003-0003-000300030003''"
    by code_simp
  have m: "to_string (parse_auth_response (flow_result flow_denied) ''error_message'') = ''undefined''"
    by code_simp
  show ?thesis
    using finish_auth_invalid_token [OF h1 h2] h1 h2 n u m by simp
qed

text \<open>
  The callback of the older copy logs an invalid token and starts no authorization,
  after a silent attempt as after an interactive one.
\<close>

lemma auth_callback_part_000_invalid_token:
  assumes "last_error e = None"
    and "validate_id_token m (decoder e) (clock e) s
           (parse_auth_response (flow_result e) ''id_token'') = Inr (False, s1)"
  shows "auth_callback_part_000 m e fe s interactive =
           (s, [ConsoleError ''Id token validation failed!''], Returned)"
  using assms validate_id_token_session [OF assms(2)]
  by (simp add: auth_callback_part_000_def Let_def)

text \<open>A flow that brings both tokens: \<open>finish_auth\<close> stores them and calls \<open>callback()\<close>.\<close>

lemma finish_auth_accepts_both_tokens:
  "finish_auth example_runtime flow_both_tokens waiting_session True =
     (authorized_session,
      [Fetch \<lparr>req_url = ''https://api.example/v2.0/me'', req_method = GET,
              req_headers = [(''Authorization'', ''Bearer at-1''), (''Accept'', ''application/json'')],
              req_body = None\<rparr>,
       StorageSyncSet authorized_session, Callback],
      Returned)"
  by code_simp

text \<open>
  Claim C4 as stated fails: after an invalid token on an interactive attempt the
  session need not be unauthorized. An authorized session gets 401 for its mail
  request; the silent reauthorization brings no id token, so \<open>finish_auth\<close> starts an
  interactive attempt; that attempt is denied, the failure is logged, and
  \<open>is_authorized\<close> is still true.
\<close>

theorem failed_interactive_attempt_stays_authorized:
  "fetch_message_count example_runtime (expired_env reauth_no_id_token) authorized_session =
     (authorized_session\<lparr>current_nonce := Str ''00020002-0002-0002-0002-000200020002''\<rparr>,
      [Fetch \<lparr>req_url = ''https://api.example/v2.0/me/MailFolders?$filter=UnreadItemCount%20gt%200&$top=50'',
              req_method = GET,
              req_headers = [(''Authorization'', ''Bearer at-1''), (''Accept'', ''application/json''),
                             (''x-AnchorMailbox'', ''ann@mail.example'')],
              req_body = None\<rparr>,
       LaunchWebAuthFlow
         ''https://login.example/authorize?client_id=app-1&redirect_uri=https%3A%2F%2Fext.example%2Fcallback&response_type=token&scope=openid%20mail.read&response_mode=fragment&nonce=00000000-0000-0000-0000-000000000000&state=00010001-0001-0001-0001-000100010001&prompt=none&domain_hint=organizations&login_hint=ann@mail.example''
         False,
       LaunchWebAuthFlow
         ''https://login.example/authorize?client_id=app-1&redirect_uri=https%3A%2F%2Fext.example%2Fcallback&response_type=id_token%20token&scope=openid%20mail.read&response_mode=fragment&nonce=00020002-0002-0002-0002-000200020002&state=00030003-0003-0003-0003-000300030003&domain_hint=organizations&login_hint=ann@mail.example''
         True],
      Pending)
   \<and> validate_id_token example_runtime (decoder flow_denied) (clock flow_denied)
       (authorized_session\<lparr>current_nonce := Str ''00020002-0002-0002-0002-000200020002''\<rparr>)
       (parse_auth_response (flow_result flow_denied) ''id_token'')
     = Inr (False, authorized_session\<lparr>current_nonce := Str ''00020002-0002-0002-0002-000200020002''\<rparr>)
   \<and> finish_auth example_runtime flow_denied
       (authorized_session\<lparr>current_nonce := Str ''00020002-0002-0002-0002-000200020002''\<rparr>) True =
     (authorized_session\<lparr>current_nonce := Str ''00020002-0002-0002-0002-000200020002''\<rparr>,
      [ConsoleError ''Authorization failed: undefined''], Returned)
   \<and> is_authorized (authorized_session\<lparr>current_nonce := Str ''00020002-0002-0002-0002-000200020002''\<rparr>)"
  by code_simp

subsection \<open>Fetching the message count\<close>

text \<open>
  Claim C9. Called on a session that is not authorized, \<open>fetch_message_count\<close> returns
  at once: it makes no request and no other call to the outside (the badge is not
  touched), and the session is as it was.
\<close>

theorem fetch_message_count_unauthorized:
  "\<not> is_authorized s \<Longrightarrow> fetch_message_count m e s = (s, [], Returned)"
  by (simp add: fetch_message_count_def)

theorem fetch_message_count_unauthorized_witness:
  "\<not> is_authorized waiting_session
   \<and> fetch_message_count example_runtime (expired_env reauth_refused) waiting_session
     = (waiting_session, [], Returned)"
  using fetch_message_count_unauthorized
    [of waiting_session example_runtime "expired_env reauth_refused"]
  by (simp add: waiting_session_def new_session_def)

lemma mail_request_url:
  "generate_request_url (mail_folders_url m) mail_query =
     mail_folders_url m @ ''$filter=UnreadItemCount%20gt%200&$top=50''"
proof -
  have "encodeURIComponent ''UnreadItemCount gt 0'' = ''UnreadItemCount%20gt%200''"
    by code_simp
  then show ?thesis
    by (simp add: generate_request_url_def mail_query_def get_property_def)
qed

lemma make_remote_request_fields:
  "req_method (make_remote_request s url (Some b)) = POST"
  "req_url (make_remote_request s url (Some b)) = url"
  "req_body (make_remote_request s url (Some b)) = Some b"
  "req_method (make_remote_request s url None) = GET"
  "req_url (make_remote_request s url None) = url"
  "req_body (make_remote_request s url None) = None"
  by (simp_all add: make_remote_request_def Let_def)

text \<open>
  The path of the expired token in the script under \<^verbatim>\<open>src/chrome\<close>, for every
  environment: the first request, the launch of the silent flow, everything
  \<open>finish_auth\<close> does, and only then, and only if \<open>finish_auth\<close> has called
  \<open>callback()\<close>, the second request. The second request goes to the bare
  \<open>mail_folders_url\<close> with the query as its body, so it is a POST. When \<open>finish_auth\<close>
  ends without the call, there is no second request, and the method never returns.
\<close>

lemma fetch_message_count_expired:
  assumes "is_authorized s" and "first_response e = Some r" and "\<not> ok r" and "status r < 500"
    and "authorize m (reauth_rnd_nonce e) (reauth_rnd_state e) s False = (s1, launch)"
    and "finish_auth m (reauth e) s1 False = (s2, events, ended)"
  shows "fetch_message_count m e s =
     (if Callback \<in> set events then
        (case second_response e of
           None \<Rightarrow>
             (s2, Fetch (make_remote_request s (generate_request_url (mail_folders_url m) mail_query) None)
                  # launch # events
                  @ [Fetch (make_remote_request s2 (mail_folders_url m) (Some mail_query))], Threw)
         | Some r2 \<Rightarrow>
             (s2, Fetch (make_remote_request s (generate_request_url (mail_folders_url m) mail_query) None)
                  # launch # events
                  @ Fetch (make_remote_request s2 (mail_folders_url m) (Some mail_query))
                  # fst (finish_fetch r2), snd (finish_fetch r2)))
      else
        (s2, Fetch (make_remote_request s (generate_request_url (mail_folders_url m) mail_query) None)
             # launch # events, Pending))"
  using assms
  by (simp add: fetch_message_count_def Let_def split: option.splits prod.splits)

text \<open>
  Claim C2. After a first request that fails with a status below 500, one silent
  reauthorization is made and then the same request once more: same URL, same method,
  same query parameters. In the script the first request is a GET of the URL with the
  query, and the second is a POST of the URL without the query, the query object being
  passed as the body. Here the first request is answered 401 and the silent flow ends
  with \<^verbatim>\<open>lastError\<close>.
\<close>

theorem retry_is_another_request:
  "fetch_message_count example_runtime (expired_env reauth_refused) authorized_session =
     (authorized_session,
      [Fetch \<lparr>req_url = ''https://api.example/v2.0/me/MailFolders?$filter=UnreadItemCount%20gt%200&$top=50'',
              req_method = GET,
              req_headers = [(''Authorization'', ''Bearer at-1''), (''Accept'', ''application/json''),
                             (''x-AnchorMailbox'', ''ann@mail.example'')],
              req_body = None\<rparr>,
       LaunchWebAuthFlow
         ''https://login.example/authorize?client_id=app-1&redirect_uri=https%3A%2F%2Fext.example%2Fcallback&response_type=token&scope=openid%20mail.read&response_mode=fragment&nonce=00000000-0000-0000-0000-000000000000&state=00010001-0001-0001-0001-000100010001&prompt=none&domain_hint=organizations&login_hint=ann@mail.example''
         False,
       ConsoleError ''User interaction required.'',
       Callback,
       Fetch \<lparr>req_url = ''https://api.example/v2.0/me/MailFolders?'',
              req_method = POST,
              req_headers = [(''Authorization'', ''Bearer at-1''), (''Accept'', ''application/json''),
                             (''x-AnchorMailbox'', ''ann@mail.example'')],
              req_body = Some [(''$filter'', Str ''UnreadItemCount%20gt%200''), (''$top'', Str ''50'')]\<rparr>,
       SetBadgeText ''3''],
      Returned)"
  by code_simp

text \<open>
  The older copy makes its second request in the same turn as the launch of the flow,
  whatever the flow will bring: the call does not read the flow's environment, and the
  second request carries the token of the first.
\<close>

lemma fetch_message_count_part_000_ignores_flow:
  "fetch_message_count_part_000 m (e\<lparr>reauth := a\<rparr>) s = fetch_message_count_part_000 m e s"
  by (simp add: fetch_message_count_part_000_def Let_def split: option.splits)

lemma fetch_message_count_part_000_expired:
  assumes "is_authorized s" and "first_response e = Some r" and "\<not> ok r" and "status r < 500"
  shows "\<exists>rest ended.
     fetch_message_count_part_000 m e s =
       (s\<lparr>current_nonce := Str (create_nonce (reauth_rnd_nonce e))\<rparr>,
        Fetch (make_remote_request_part_000 s (mail_folders_url_part_000 m) None)
        # snd (authorize_part_000 m (reauth_rnd_nonce e) s False)
        # Fetch (make_remote_request_part_000 s (mail_folders_url_part_000 m) None)
        # rest, ended)"
  using assms
  by (auto simp: fetch_message_count_part_000_def Let_def authorize_part_000_def
      make_remote_request_part_000_def object_assign_def get_property_def
      split: option.splits prod.splits)

text \<open>
  Claim C6. On the path of the expired token the reauthorization runs to its end
  before the request is made again. The script under \<^verbatim>\<open>src/chrome\<close> waits for it
  (\<open>fetch_message_count_expired\<close>). The older copy does not: its calls are the first
  request, the launch of the silent flow and, at once, the second request, with the
  token that was just refused; the flow's callback can only run after that.
\<close>

theorem older_copy_retries_at_once:
  "fetch_message_count_part_000 example_runtime (expired_env reauth_refused) authorized_session =
     (authorized_session,
      [Fetch \<lparr>req_url = ''https://api.example/v2.0/me/MailFolders'', req_method = GET,
              req_headers = [(''Authorization'', ''Bearer at-1''), (''Accept'', ''application/json'')],
              req_body = None\<rparr>,
       LaunchWebAuthFlow
         ''https://login.example/authorize?client_id=app-1&redirect_url=https%3A%2F%2Fext.example%2Fcallback&response_type=id_token token&scope=openid%20mail.read&response_mode=fragment&nonce=00000000-0000-0000-0000-000000000000&prompt=none&domain_hint=organizations&login_hint=ann@mail.example&''
         False,
       Fetch \<lparr>req_url = ''https://api.example/v2.0/me/MailFolders'', req_method = GET,
              req_headers = [(''Authorization'', ''Bearer at-1''), (''Accept'', ''application/json'')],
              req_body = None\<rparr>,
       SetBadgeText ''8''],
      Returned)"
  by code_simp

subsection \<open>The two tokens\<close>

lemma at_index_not_Null: "at_index xs i \<noteq> Null"
  by (simp add: at_index_def)

lemma foldl_set_param_not_Null:
  "result k \<noteq> Null \<Longrightarrow> foldl set_param result params k \<noteq> Null"
  by (induction params arbitrary: result) (auto simp: set_param_def Let_def at_index_not_Null)

lemma parse_auth_response_not_Null: "parse_auth_response response k \<noteq> Null"
  by (simp add: parse_auth_response_def Let_def foldl_set_param_not_Null empty_object_def)

text \<open>What \<open>accepts\<close> means, and what was accepted: a non-empty string.\<close>

lemma accepts_iff:
  "accepts m e s \<longleftrightarrow>
     last_error e = None \<and>
     (\<exists>s1. validate_id_token m (decoder e) (clock e) s
              (parse_auth_response (flow_result e) ''id_token'') = Inr (True, s1))"
  by (auto simp: accepts_def split: option.splits sum.splits)

lemma accepted_id_token:
  assumes "accepts m e s"
  shows "\<exists>t. fst (accepted_tokens e) = Str t \<and> t \<noteq> []"
  using assms
  by (auto simp: accepts_iff accepted_tokens_def validate_id_token_def
      split: jsval.splits if_splits option.splits)

lemma from_accepted_response_shape:
  assumes "from_accepted_response m s"
  shows "\<exists>t. id_token s = Str t \<and> t \<noteq> []"
  using assms accepted_id_token by (fastforce simp: from_accepted_response_def)

lemma token_fields_eq:
  "token_fields s = p \<longleftrightarrow> id_token s = fst p \<and> access_token s = snd p"
  by (cases p) (simp add: token_fields_def)

lemma tokens_assigned_together_fields:
  "token_fields s' = token_fields s \<Longrightarrow>
     tokens_assigned_together m s' = tokens_assigned_together m s"
  by (simp add: tokens_assigned_together_def from_accepted_response_def token_fields_def)

lemma accepted_tokens_assigned_together:
  assumes "accepts m e s0" and "token_fields s = accepted_tokens e"
  shows "tokens_assigned_together m s"
proof -
  have "id_token s = fst (accepted_tokens e)" and "access_token s = snd (accepted_tokens e)"
    using assms(2) by (simp_all add: token_fields_eq)
  with assms(1) have "from_accepted_response m s"
    unfolding from_accepted_response_def by blast
  then show ?thesis by (simp add: tokens_assigned_together_def)
qed

lemma validate_id_token_token_fields:
  assumes "validate_id_token m jwt_decode now s token = Inr (valid, s')"
  shows "token_fields s' = token_fields s"
  using assms
  by (auto simp: validate_id_token_def accept_claims_def token_fields_def Let_def
      split: jsval.splits if_splits option.splits)

text \<open>Each operation, and what it does to the two fields.\<close>

lemma finish_auth_token_fields:
  "token_fields (fst (finish_auth m e s interactive)) = tokens_after m e s"
proof (cases "last_error e")
  case (Some err)
  then show ?thesis
    by (simp add: finish_auth_def tokens_after_def accepts_def)
next
  case None
  show ?thesis
  proof (cases "validate_id_token m (decoder e) (clock e) s
                  (parse_auth_response (flow_result e) ''id_token'')")
    case (Inl err)
    then show ?thesis
      using None by (simp add: finish_auth_def tokens_after_def accepts_def)
  next
    case (Inr p)
    obtain valid s1 where p: "p = (valid, s1)" by (cases p)
    note v = Inr [unfolded p]
    have s1: "token_fields s1 = token_fields s"
      using validate_id_token_token_fields [OF v] .
    show ?thesis
      using None v s1 authorize_session [of m "next_rnd_nonce e" "next_rnd_state e" s1 True]
      by (auto simp: finish_auth_def tokens_after_def accepts_def accepted_tokens_def
          token_fields_def Let_def split: prod.splits option.splits)
  qed
qed

lemma finish_auth_writes:
  assumes "finish_auth m e s interactive = (s', events, ended)"
  shows "list_all (\<lambda>ev. case ev of StorageSyncSet d \<Rightarrow> token_fields d = token_fields s' | _ \<Rightarrow> True)
           events"
  using assms
  by (auto simp: finish_auth_def authorize_def Let_def token_fields_def
      split: option.splits sum.splits prod.splits if_splits)

lemma authorize_token_fields:
  "token_fields (fst (authorize m r1 r2 s interactive)) = token_fields s"
  by (simp add: authorize_session token_fields_def)


lemma onClicked_token_fields:
  "token_fields (fst (onClicked m r1 r2 s)) = token_fields s"
  by (simp add: onClicked_def authorize_token_fields)


text \<open>The state of the two fields is kept by every operation, in the session and in the store.\<close>

lemma stored_ok:
  "sets_ok m events \<Longrightarrow> store_ok m store \<Longrightarrow> store_ok m (stored events store)"
  by (induction events store rule: stored.induct) (auto simp: store_ok_def sets_ok_def)

lemma sets_ok_simps:
  "sets_ok m [] = True"
  "sets_ok m (ev # events) =
     ((case ev of StorageSyncSet d \<Rightarrow> tokens_assigned_together m d | _ \<Rightarrow> True)
      \<and> sets_ok m events)"
  "sets_ok m (events @ events') = (sets_ok m events \<and> sets_ok m events')"
  by (simp_all add: sets_ok_def)

lemma finish_auth_tokens:
  assumes "tokens_assigned_together m s" and "finish_auth m e s interactive = (s', events, ended)"
  shows "tokens_assigned_together m s' \<and> sets_ok m events"
proof -
  have f: "token_fields s' = tokens_after m e s"
    using finish_auth_token_fields [of m e s interactive] assms(2) by simp
  have s': "tokens_assigned_together m s'"
  proof (cases "accepts m e s")
    case True
    then show ?thesis
      using f accepted_tokens_assigned_together [of m e s s'] by (simp add: tokens_after_def)
  next
    case False
    then show ?thesis
      using f assms(1) tokens_assigned_together_fields [of s' s m] by (simp add: tokens_after_def)
  qed
  have "sets_ok m events"
    unfolding sets_ok_def
  proof (rule list.pred_mono_strong [OF finish_auth_writes [OF assms(2)]])
    fix ev
    assume w: "case ev of StorageSyncSet d \<Rightarrow> token_fields d = token_fields s' | _ \<Rightarrow> True"
    show "case ev of StorageSyncSet d \<Rightarrow> tokens_assigned_together m d | _ \<Rightarrow> True"
    proof (cases ev)
      case (StorageSyncSet d)
      then have "token_fields d = token_fields s'"
        using w by simp
      then have "tokens_assigned_together m d"
        using s' tokens_assigned_together_fields [of d s' m] by simp
      then show ?thesis
        using StorageSyncSet by simp
    qed simp_all
  qed
  with s' show ?thesis by simp
qed

lemma finish_fetch_sets_ok: "finish_fetch r = (events, ended) \<Longrightarrow> sets_ok m events"
  by (auto simp: finish_fetch_def sets_ok_def update_status_badge_def Let_def
      split: option.splits if_splits)

lemma fetch_message_count_tokens:
  assumes "tokens_assigned_together m s" and "fetch_message_count m fe s = (s', events, ended)"
  shows "tokens_assigned_together m s' \<and> sets_ok m events"
proof -
  obtain s1 launch where a:
    "authorize m (reauth_rnd_nonce fe) (reauth_rnd_state fe) s False = (s1, launch)"
    by (cases "authorize m (reauth_rnd_nonce fe) (reauth_rnd_state fe) s False")
  have s1: "tokens_assigned_together m s1"
    using authorize_token_fields [of m "reauth_rnd_nonce fe" "reauth_rnd_state fe" s False] a
      assms(1) tokens_assigned_together_fields [of s1 s m]
    by simp
  have l: "sets_ok m [launch]"
    using a by (auto simp: authorize_def Let_def sets_ok_def)
  obtain s2 evs out where f: "finish_auth m (reauth fe) s1 False = (s2, evs, out)"
    by (cases "finish_auth m (reauth fe) s1 False")
  note fa = finish_auth_tokens [OF s1 f]
  show ?thesis
    using assms a f fa l
    by (auto simp: fetch_message_count_def Let_def sets_ok_simps
        split: if_splits option.splits prod.splits dest: finish_fetch_sets_ok)
qed

lemma initialize_tokens:
  assumes "store_ok m store"
  shows "tokens_assigned_together m (initialize keeps store new_session)"
proof (cases store)
  case None
  then show ?thesis
    by (simp add: initialize_def tokens_assigned_together_def new_session_def)
next
  case (Some d)
  then have d: "tokens_assigned_together m d"
    using assms by (simp add: store_ok_def)
  let ?s = "initialize keeps store new_session"
  have i: "id_token ?s = read_back keeps (id_token d) Null"
    and a: "access_token ?s = read_back keeps (access_token d) Null"
    using Some by (simp_all add: initialize_def new_session_def)
  show ?thesis
  proof (cases "from_accepted_response m d")
    case False
    then have "id_token d = Null" and "access_token d = Null"
      using d by (auto simp: tokens_assigned_together_def)
    then show ?thesis
      using i a by (simp add: tokens_assigned_together_def read_back_def)
  next
    case True
    then obtain e s0 where e: "accepts m e s0" "id_token d = fst (accepted_tokens e)"
      "access_token d = snd (accepted_tokens e)
       \<or> snd (accepted_tokens e) = Undefined \<and> access_token d = Null"
      unfolding from_accepted_response_def by blast
    obtain t where t: "fst (accepted_tokens e) = Str t"
      using accepted_id_token [OF e(1)] by blast
    have "id_token ?s = fst (accepted_tokens e)"
      using i e(2) t by (simp add: read_back_def)
    moreover have "access_token ?s = snd (accepted_tokens e)
       \<or> snd (accepted_tokens e) = Undefined \<and> access_token ?s = Null"
      using a e(3) by (auto simp: read_back_def)
    ultimately have "from_accepted_response m ?s"
      using e(1) unfolding from_accepted_response_def by blast
    then show ?thesis by (simp add: tokens_assigned_together_def)
  qed
qed

lemma reachable_tokens:
  "reachable m st \<Longrightarrow> tokens_assigned_together m (fst st) \<and> store_ok m (snd st)"
proof (induction rule: reachable.induct)
  case (start keeps)
  then show ?case by (simp add: initialize_tokens store_ok_def)
next
  case (restart s store keeps)
  then show ?case by (simp add: initialize_tokens)
next
  case (click s store r1 r2 s' ev)
  then show ?case
    using onClicked_token_fields [of m r1 r2 s] tokens_assigned_together_fields [of s' s m]
    by simp
next
  case (flow_done s store e interactive s' events ended)
  then show ?case
    using finish_auth_tokens [of m s e interactive s' events ended] stored_ok [of m events store]
    by simp
next
  case (alarm s store fe s' events ended)
  then show ?case
    using fetch_message_count_tokens [of m s fe s' events ended] stored_ok [of m events store]
    by simp
qed

text \<open>
  When the accepted response carries an access token along with its id token, the two
  fields stay both set or both \<^verbatim>\<open>null\<close>. An interactive attempt asks for both
  (\<^verbatim>\<open>response_type: 'id_token token'\<close>); what comes back is the provider's to say.
\<close>

lemma finish_auth_keeps_pairing:
  assumes "tokens_paired s"
    and "token_set (snd (accepted_tokens e)) \<or> \<not> token_set (fst (accepted_tokens e))"
  shows "tokens_paired (fst (finish_auth m e s interactive))"
proof -
  let ?s' = "fst (finish_auth m e s interactive)"
  have f: "token_fields ?s' = tokens_after m e s"
    by (rule finish_auth_token_fields)
  show ?thesis
  proof (cases "accepts m e s")
    case True
    then obtain t where "fst (accepted_tokens e) = Str t"
      using accepted_id_token by blast
    then have "token_set (fst (accepted_tokens e))" and "token_set (snd (accepted_tokens e))"
      using assms(2) by auto
    moreover have "id_token ?s' = fst (accepted_tokens e)"
      and "access_token ?s' = snd (accepted_tokens e)"
      using f True by (simp_all add: tokens_after_def token_fields_eq)
    ultimately show ?thesis
      by (simp add: tokens_paired_def)
  next
    case False
    then have "id_token ?s' = id_token s" and "access_token ?s' = access_token s"
      using f by (simp_all add: tokens_after_def token_fields_def)
    then show ?thesis
      using assms(1) by (simp add: tokens_paired_def)
  qed
qed

text \<open>
  The script reaches \<open>id_only_session\<close>: it starts, the user clicks, and the flow
  answers with a valid id token and no access token.
\<close>

lemma id_only_session_reachable:
  "reachable example_runtime (id_only_session, Some id_only_session)"
proof -
  have i: "initialize True None new_session = new_session"
    by (simp add: initialize_def new_session_def)
  have r0: "reachable example_runtime (new_session, None)"
    using reachable.start [of example_runtime True] i by simp
  have c: "onClicked example_runtime (\<lambda>i. 0) (\<lambda>i. 1) new_session =
      (waiting_session,
       LaunchWebAuthFlow ''https://login.example/authorize?client_id=app-1&redirect_uri=https%3A%2F%2Fext.example%2Fcallback&response_type=id_token%20token&scope=openid%20mail.read&response_mode=fragment&nonce=00000000-0000-0000-0000-000000000000&state=00010001-0001-0001-0001-000100010001'' True)"
    by code_simp
  have r1: "reachable example_runtime (waiting_session, None)"
    using reachable.click [OF r0 c] .
  have f: "finish_auth example_runtime flow_id_token_only waiting_session True =
      (id_only_session,
       [Fetch \<lparr>req_url = ''https://api.example/v2.0/me'', req_method = GET,
               req_headers = [(''Authorization'', ''Bearer undefined''),
                              (''Accept'', ''application/json'')],
               req_body = None\<rparr>,
        StorageSyncSet id_only_session, Callback],
       Returned)"
    by code_simp
  show ?thesis
    using reachable.flow_done [OF r1 f] by simp
qed

text \<open>
  After a restart on a store that does not keep \<^verbatim>\<open>undefined\<close>, the access token of that
  session is \<^verbatim>\<open>null\<close> beside its id token.
\<close>

lemma restart_without_access_token:
  "reachable example_runtime (initialize False (Some id_only_session) new_session, Some id_only_session)
   \<and> token_fields (initialize False (Some id_only_session) new_session) = (Str ''h.p.s'', Null)"
  using reachable.restart [OF id_only_session_reachable, of False]
  by (simp add: initialize_def token_fields_def read_back_def id_only_session_def new_session_def)

text \<open>In a state the script reaches, a set access token has a set id token beside it.\<close>

lemma reachable_id_token:
  assumes "reachable m (s, store)"
  shows "id_token s = Null \<and> access_token s = Null \<or> (\<exists>t. id_token s = Str t \<and> t \<noteq> [])"
  using reachable_tokens [OF assms] from_accepted_response_shape [of m s]
  by (auto simp: tokens_assigned_together_def)




end
